theory Spec2Isabelle
  imports Main "HOL-Library.Word"
begin

section \<open>JavaScript values\<close>

text \<open>
  A JavaScript string is a sequence of 16-bit code units, and \<open>===\<close> on two strings
  compares these sequences. The literals of the two scripts that are not ASCII are
  written out as their code units; \<open>ascii\<close> embeds an ASCII literal.
\<close>

type_synonym jsstring = "16 word list"

definition ascii :: "string \<Rightarrow> jsstring" where
  "ascii s = map (\<lambda>c. of_nat (of_char c)) s"

text \<open>
  The values a parsed JSON body and a DOM property can hold. A number is kept as its
  binary64 bit pattern: neither script computes with one. An object is the list of its
  own properties, name and value.
\<close>

datatype js =
    Undefined
  | Null
  | Bool bool
  | Num "64 word"
  | Str jsstring
  | Arr "js list"
  | Obj "(jsstring \<times> js) list"

datatype js_error = TypeError

text \<open>
  \<open>v === 'literal'\<close>: strict equality against a string literal holds for a string with
  the same code units and for nothing else (no coercion).
\<close>

fun strict_eq_str :: "js \<Rightarrow> jsstring \<Rightarrow> bool" where
  "strict_eq_str (Str s) t = (s = t)"
| "strict_eq_str _ t = False"

section \<open>The form script \<open>static/js/add_equipment.js\<close>\<close>

subsection \<open>The document\<close>

text \<open>
  Elements are objects in a store, addressed by reference; the document lists the
  references of its elements in tree order. An element carries its \<open>id\<close>, its
  \<open>value\<close> property (\<open>undefined\<close> on an element that has none) and the
  \<open>display\<close> entry of its inline style; every other property lives in the record's
  extension. Listeners registered with \<open>addEventListener\<close> are kept per target and
  event type, in registration order.
\<close>

type_synonym ref = nat

record element =
  el_id :: jsstring
  el_value :: js
  style_display :: jsstring

datatype listener = ToggleSold "ref option" "ref option"

record 'a page =
  elems :: "ref \<Rightarrow> 'a element_scheme"
  tree :: "ref list"
  listeners :: "(ref \<times> jsstring \<times> listener) list"

text \<open>\<open>document.getElementById\<close>: the first element in tree order with that id, or \<open>null\<close>.\<close>

definition getElementById :: "'a page \<Rightarrow> jsstring \<Rightarrow> ref option" where
  "getElementById pg i = find (\<lambda>r. el_id (elems pg r) = i) (tree pg)"

text \<open>Reading \<open>x.value\<close> and writing \<open>x.style.display\<close> throw a TypeError when \<open>x\<close> is \<open>null\<close>.\<close>

fun get_value :: "ref option \<Rightarrow> 'a page \<Rightarrow> js_error + js" where
  "get_value None pg = Inl TypeError"
| "get_value (Some r) pg = Inr (el_value (elems pg r))"

fun set_style_display :: "ref option \<Rightarrow> jsstring \<Rightarrow> 'a page \<Rightarrow> js_error + 'a page" where
  "set_style_display None d pg = Inl TypeError"
| "set_style_display (Some r) d pg =
     Inr (pg\<lparr>elems := (elems pg)(r := (elems pg r)\<lparr>style_display := d\<rparr>)\<rparr>)"

fun addEventListener :: "ref option \<Rightarrow> jsstring \<Rightarrow> listener \<Rightarrow> 'a page \<Rightarrow> js_error + 'a page" where
  "addEventListener None ev l pg = Inl TypeError"
| "addEventListener (Some r) ev l pg =
     Inr (if (r, ev, l) \<in> set (listeners pg) then pg
          else pg\<lparr>listeners := listeners pg @ [(r, ev, l)]\<rparr>)"

subsection \<open>The script\<close>

text \<open>The status literal of line 6: the code units U+05E0 U+05DE U+05DB U+05E8 ("sold").\<close>

definition sold :: jsstring where
  "sold = [0x5E0, 0x5DE, 0x5DB, 0x5E8]"

text \<open>
  \<open>toggleSold\<close>, closed over the two constants \<open>placement\<close> and \<open>soldWrap\<close>:
  \<^verbatim>\<open>if (!placement || !soldWrap) return;\<close>
  \<^verbatim>\<open>soldWrap.style.display = (placement.value === '...') ? '' : 'none';\<close>
\<close>

definition toggleSold :: "ref option \<Rightarrow> ref option \<Rightarrow> 'a page \<Rightarrow> js_error + 'a page" where
  "toggleSold placement soldWrap pg =
     (if placement = None \<or> soldWrap = None then Inr pg
      else case get_value placement pg of
             Inl e \<Rightarrow> Inl e
           | Inr v \<Rightarrow>
               set_style_display soldWrap
                 (if strict_eq_str v sold then ascii '''' else ascii ''none'') pg)"

fun run_listener :: "listener \<Rightarrow> 'a page \<Rightarrow> js_error + 'a page" where
  "run_listener (ToggleSold placement soldWrap) pg = toggleSold placement soldWrap pg"

text \<open>
  The body of the immediately invoked function: look both elements up once, and when
  the select exists register the toggle for its change events and run it once.
\<close>

definition script :: "'a page \<Rightarrow> js_error + 'a page" where
  "script pg =
     (let placement = getElementById pg (ascii ''placement'');
          soldWrap = getElementById pg (ascii ''sold_to_wrap'')
      in if placement \<noteq> None then
           (case addEventListener placement (ascii ''change'')
                   (ToggleSold placement soldWrap) pg of
              Inl e \<Rightarrow> Inl e
            | Inr pg1 \<Rightarrow> toggleSold placement soldWrap pg1)
         else Inr pg)"

subsection \<open>Events\<close>

text \<open>
  Dispatching an event runs the listeners registered on the target for that type, in
  registration order. An exception thrown by a listener is reported by the browser and
  does not stop the ones after it.
\<close>

fun run_all :: "listener list \<Rightarrow> 'a page \<Rightarrow> 'a page" where
  "run_all [] pg = pg"
| "run_all (l # ls) pg =
     (case run_listener l pg of Inl e \<Rightarrow> run_all ls pg | Inr pg1 \<Rightarrow> run_all ls pg1)"

definition dispatch :: "ref \<Rightarrow> jsstring \<Rightarrow> 'a page \<Rightarrow> 'a page" where
  "dispatch r ev pg =
     run_all (map (\<lambda>(r1, ev1, l). l)
                (filter (\<lambda>(r1, ev1, l). r1 = r \<and> ev1 = ev) (listeners pg))) pg"

text \<open>A change of a form control: its value becomes \<open>v\<close>, then \<open>change\<close> fires on it.\<close>

definition change_event :: "ref \<Rightarrow> jsstring \<Rightarrow> 'a page \<Rightarrow> 'a page" where
  "change_event r v pg =
     dispatch r (ascii ''change'')
       (pg\<lparr>elems := (elems pg)(r := (elems pg r)\<lparr>el_value := Str v\<rparr>)\<rparr>)"

fun change_events :: "(ref \<times> jsstring) list \<Rightarrow> 'a page \<Rightarrow> 'a page" where
  "change_events [] pg = pg"
| "change_events ((r, v) # cs) pg = change_events cs (change_event r v pg)"

text \<open>Loading a page: the script runs on the parsed document, which has no listeners yet.\<close>

definition page_load :: "(ref \<Rightarrow> 'a element_scheme) \<Rightarrow> ref list \<Rightarrow> js_error + 'a page" where
  "page_load es t = script \<lparr>elems = es, tree = t, listeners = []\<rparr>"

section \<open>The asset endpoint (the server script, second part of \<open>EquipmentManagerSetup.iss\<close>)\<close>

subsection \<open>Connection settings\<close>

record options =
  trustServerCertificate :: bool
  encrypt :: bool

record config =
  user :: jsstring
  password :: jsstring
  server :: jsstring
  database :: jsstring
  options :: options

definition config :: config where
  "config = \<lparr>user = ascii ''your_username'', password = ascii ''your_password'',
              server = ascii ''localhost'', database = ascii ''your_database'',
              options = \<lparr>trustServerCertificate = True, encrypt = False\<rparr>\<rparr>"

subsection \<open>The request body\<close>

text \<open>
  The six constants that line 46 takes out of \<open>req.body\<close>; the same six are the
  columns of a row of \<open>Assets\<close>.
\<close>

record asset =
  name :: js
  vendor :: js
  warranty_expiry :: js
  status :: js
  barcode :: js
  history :: js

text \<open>
  Reading one of the six properties. On an object it is the own property of that name
  (the entry that \<open>map_of\<close> finds), or \<open>undefined\<close>; an array, a string, a number
  and a boolean have no property of any of these six names, neither own nor inherited.
\<close>

fun read_field :: "js \<Rightarrow> jsstring \<Rightarrow> js" where
  "read_field (Obj kvs) k = (case map_of kvs k of None \<Rightarrow> Undefined | Some v \<Rightarrow> v)"
| "read_field _ k = Undefined"

text \<open>
  \<^verbatim>\<open>const { name, vendor, warranty_expiry, status, barcode, history } = req.body;\<close>
  Destructuring \<open>undefined\<close> or \<open>null\<close> throws a TypeError; any other body yields
  the six property reads.
\<close>

definition fields_of :: "js \<Rightarrow> asset" where
  "fields_of b =
     \<lparr>name = read_field b (ascii ''name''),
      vendor = read_field b (ascii ''vendor''),
      warranty_expiry = read_field b (ascii ''warranty_expiry''),
      status = read_field b (ascii ''status''),
      barcode = read_field b (ascii ''barcode''),
      history = read_field b (ascii ''history'')\<rparr>"

fun destructure :: "js \<Rightarrow> js_error + asset" where
  "destructure Undefined = Inl TypeError"
| "destructure Null = Inl TypeError"
| "destructure b = Inr (fields_of b)"

subsection \<open>The statement\<close>

text \<open>
  A tagged template calls its tag with the literal chunks of the template and, apart
  from them, the values of the substitutions. The chunks of lines 50 to 53:
\<close>

record statement =
  st_strings :: "jsstring list"
  st_values :: "js list"

definition insert_strings :: "jsstring list" where
  "insert_strings =
     [[0x0A] @ ascii ''      INSERT INTO Assets (name, vendor, warranty_expiry, status, barcode, history)''
        @ [0x0A] @ ascii ''      VALUES ('',
      ascii '', '', ascii '', '', ascii '', '', ascii '', '', ascii '', '',
      ascii '')'' @ [0x0A] @ ascii ''    '']"

definition assets_insert :: "asset \<Rightarrow> statement" where
  "assets_insert a =
     \<lparr>st_strings = insert_strings,
      st_values = [name a, vendor a, warranty_expiry a, status a, barcode a, history a]\<rparr>"

subsection \<open>The driver's rendering of the tagged template\<close>

text \<open>
  The tag \<open>sql.query\<close> belongs to the driver (the \<open>mssql\<close> package), which is not part
  of the repository. It builds the command text and the bound inputs in one pass over the
  substitutions:
  \<^verbatim>\<open>const command = [strings[0]]\<close>
  \<^verbatim>\<open>for (let index = 0; index < values.length; index++) {\<close>
  \<^verbatim>\<open>  const value = values[index]\<close>
  \<^verbatim>\<open>  if (Array.isArray(value)) {\<close>
  \<^verbatim>\<open>    for (let parameterIndex = 0; parameterIndex < value.length; parameterIndex++) {\<close>
  \<^verbatim>\<open>      this.input(`param_${index}_${parameterIndex}`, value[parameterIndex])\<close>
  \<^verbatim>\<open>      command.push(`@param_${index}_${parameterIndex}`)\<close>
  \<^verbatim>\<open>      if (parameterIndex < value.length - 1) command.push(', ')\<close>
  \<^verbatim>\<open>    }\<close>
  \<^verbatim>\<open>    command.push(strings[index + 1])\<close>
  \<^verbatim>\<open>  } else {\<close>
  \<^verbatim>\<open>    this.input(`param${index + 1}`, value)\<close>
  \<^verbatim>\<open>    command.push(`@param${index + 1}`, strings[index + 1])\<close>
  \<^verbatim>\<open>  }\<close>
  \<^verbatim>\<open>}\<close>
  and sends \<open>command.join('')\<close> with the inputs. A substitution that is an array is thus
  written as one placeholder per item.
\<close>

record command =
  cmd_text :: jsstring
  cmd_inputs :: "(jsstring \<times> js) list"

text \<open>The decimal digits of a non-negative integer, as a template literal writes it.\<close>

fun decimal :: "nat \<Rightarrow> jsstring" where
  "decimal n =
     (if n < 10 then [of_nat (48 + n)]
      else decimal (n div 10) @ [of_nat (48 + n mod 10)])"

declare decimal.simps [simp del]

definition param_name :: "nat \<Rightarrow> jsstring" where
  "param_name index = ascii ''param'' @ decimal (index + 1)"

definition item_name :: "nat \<Rightarrow> nat \<Rightarrow> jsstring" where
  "item_name index parameterIndex =
     ascii ''param_'' @ decimal index @ ascii ''_'' @ decimal parameterIndex"

text \<open>The inner loop, from \<open>parameterIndex\<close> on, over the items that remain.\<close>

fun array_params :: "nat \<Rightarrow> nat \<Rightarrow> js list \<Rightarrow> jsstring \<times> (jsstring \<times> js) list" where
  "array_params index parameterIndex [] = ([], [])"
| "array_params index parameterIndex (x # xs) =
     (case array_params index (Suc parameterIndex) xs of
        (text, inputs) \<Rightarrow>
          (ascii ''@'' @ item_name index parameterIndex
             @ (if xs \<noteq> [] then ascii '', '' else []) @ text,
           (item_name index parameterIndex, x) # inputs))"

text \<open>What one substitution contributes, before the chunk that follows it.\<close>

fun placeholder :: "nat \<Rightarrow> js \<Rightarrow> jsstring \<times> (jsstring \<times> js) list" where
  "placeholder index (Arr xs) = array_params index 0 xs"
| "placeholder index v = (ascii ''@'' @ param_name index, [(param_name index, v)])"

text \<open>
  The outer loop, from \<open>index\<close> on; \<open>rest\<close> holds the chunks from \<open>strings[index + 1]\<close>
  on. A chunk that does not exist is \<open>undefined\<close>, which \<open>join\<close> writes as nothing.
\<close>

fun template_loop :: "nat \<Rightarrow> js list \<Rightarrow> jsstring list \<Rightarrow> jsstring \<times> (jsstring \<times> js) list" where
  "template_loop index [] rest = ([], [])"
| "template_loop index (v # vs) rest =
     (case placeholder index v of
        (text, inputs) \<Rightarrow>
          (case template_loop (Suc index) vs (tl rest) of
             (text1, inputs1) \<Rightarrow>
               (text @ (case rest of [] \<Rightarrow> [] | c # cs \<Rightarrow> c) @ text1, inputs @ inputs1)))"

definition template :: "statement \<Rightarrow> command" where
  "template st =
     (case template_loop 0 (st_values st) (tl (st_strings st)) of
        (text, inputs) \<Rightarrow>
          \<lparr>cmd_text = (case st_strings st of [] \<Rightarrow> [] | c # cs \<Rightarrow> c) @ text,
           cmd_inputs = inputs\<rparr>)"

subsection \<open>The database, as the driver presents it\<close>

text \<open>
  The database server is outside the program. It is taken here as a state with two
  parameters that decide when it refuses: \<open>accepts_login\<close> (the answer to a connection
  attempt with given settings) and \<open>check_row\<close> (the answer of the table's constraints
  to a new row, given the rows present). A statement is executed as a whole: it is
  refused and leaves the table as it was, or it appends its row. \<open>received\<close> records
  every command that reached the server: the text the driver built and the inputs bound
  to it. What the server answers is taken from the values bound: a row holds them as
  they were passed, and what the table makes of a row, a row with an array in a column
  included, is \<open>check_row\<close>'s to say.
\<close>

datatype sql_error = ConnectionError jsstring | RequestError jsstring

record sqlserver =
  accepts_login :: "config \<Rightarrow> sql_error option"
  check_row :: "asset list \<Rightarrow> asset \<Rightarrow> sql_error option"
  assets :: "asset list"
  received :: "command list"

definition sql_connect :: "config \<Rightarrow> sqlserver \<Rightarrow> sql_error + unit" where
  "sql_connect c srv = (case accepts_login srv c of Some e \<Rightarrow> Inl e | None \<Rightarrow> Inr ())"

definition execute :: "statement \<Rightarrow> sqlserver \<Rightarrow> sql_error + sqlserver" where
  "execute st srv =
     (if st_strings st = insert_strings then
        (case st_values st of
           [n, v, w, s, b, h] \<Rightarrow>
             (let row = \<lparr>name = n, vendor = v, warranty_expiry = w, status = s,
                         barcode = b, history = h\<rparr>
              in case check_row srv (assets srv) row of
                   Some e \<Rightarrow> Inl e
                 | None \<Rightarrow> Inr (srv\<lparr>assets := assets srv @ [row]\<rparr>))
         | _ \<Rightarrow> Inl (RequestError (ascii ''EARGS'')))
      else Inl (RequestError (ascii ''EREQUEST'')))"

definition sql_query :: "statement \<Rightarrow> sqlserver \<Rightarrow> (sql_error + unit) \<times> sqlserver" where
  "sql_query st srv =
     (let srv1 = srv\<lparr>received := received srv @ [template st]\<rparr>
      in case execute st srv1 of
           Inl e \<Rightarrow> (Inl e, srv1)
         | Inr srv2 \<Rightarrow> (Inr (), srv2))"

subsection \<open>The handler of \<open>POST /api/assets\<close>\<close>

record response =
  res_status :: nat
  res_body :: js

datatype outcome = Sent response | Uncaught js_error

record world =
  db :: sqlserver
  console :: "(jsstring \<times> sql_error) list"

text \<open>
  The three literals of lines 54, 56 and 57, as code units: the confirmation message,
  the label of the log line and the error message.
\<close>

definition saved_message :: jsstring where
  "saved_message =
     [0x5D4, 0x5E6, 0x5D9, 0x5D5, 0x5D3, 0x20, 0x5E0, 0x5E9, 0x5DE, 0x5E8, 0x20,
      0x5D1, 0x5D4, 0x5E6, 0x5DC, 0x5D7, 0x5D4, 0x21]"

definition log_label :: jsstring where
  "log_label = [0x5E9, 0x5D2, 0x5D9, 0x5D0, 0x5D4, 0x3A]"

definition failed_message :: jsstring where
  "failed_message =
     [0x5E9, 0x5D2, 0x5D9, 0x5D0, 0x5D4, 0x20, 0x5D1, 0x5E9, 0x5DE, 0x5D9, 0x5E8, 0x5EA,
      0x20, 0x5D4, 0x5E6, 0x5D9, 0x5D5, 0x5D3]"

definition ok_response :: response where
  "ok_response = \<lparr>res_status = 200, res_body = Obj [(ascii ''message'', Str saved_message)]\<rparr>"

definition error_response :: response where
  "error_response = \<lparr>res_status = 500, res_body = Obj [(ascii ''error'', Str failed_message)]\<rparr>"

text \<open>The \<open>catch\<close> block: one log line with the error caught, then the 500 response.\<close>

definition catch_block :: "sql_error \<Rightarrow> world \<Rightarrow> outcome \<times> world" where
  "catch_block err w = (Sent error_response, w\<lparr>console := console w @ [(log_label, err)]\<rparr>)"

text \<open>
  The handler. The destructuring stands before the \<open>try\<close>, so what it throws leaves
  the handler uncaught; what \<open>sql.connect\<close> and \<open>sql.query\<close> reject with goes to the
  \<open>catch\<close> block.
\<close>

definition post_api_assets :: "js \<Rightarrow> world \<Rightarrow> outcome \<times> world" where
  "post_api_assets body w =
     (case destructure body of
        Inl e \<Rightarrow> (Uncaught e, w)
      | Inr a \<Rightarrow>
          (case sql_connect config (db w) of
             Inl err \<Rightarrow> catch_block err w
           | Inr u \<Rightarrow>
               (case sql_query (assets_insert a) (db w) of
                  (Inl err, srv) \<Rightarrow> catch_block err (w\<lparr>db := srv\<rparr>)
                | (Inr result, srv) \<Rightarrow> (Sent ok_response, w\<lparr>db := srv\<rparr>))))"

section \<open>Auxiliary definitions\<close>

text \<open>The names of the six properties read from the body.\<close>

definition asset_fields :: "jsstring list" where
  "asset_fields = [ascii ''name'', ascii ''vendor'', ascii ''warranty_expiry'',
                   ascii ''status'', ascii ''barcode'', ascii ''history'']"

text \<open>
  What holds of a page once the script has run with both elements present: the toggle is
  the one listener, registered for \<open>change\<close> on the select, and the wrapper's display
  agrees with the select's value.
\<close>

definition toggle_inv :: "ref \<Rightarrow> ref \<Rightarrow> 'a page \<Rightarrow> bool" where
  "toggle_inv p w pg =
     (listeners pg = [(p, ascii ''change'', ToggleSold (Some p) (Some w))] \<and> p \<noteq> w \<and>
      style_display (elems pg w) =
        (if el_value (elems pg p) = Str sold then ascii '''' else ascii ''none''))"



subsection \<open>Example inputs\<close>

text \<open>
  A form with a notes field (reference 2), the placement select (reference 0, showing the
  sold status) and the wrapper (reference 1); and the same form without the wrapper.
\<close>

definition form_elems :: "ref \<Rightarrow> element" where
  "form_elems r =
     (if r = 0 then \<lparr>el_id = ascii ''placement'', el_value = Str sold,
                     style_display = ascii ''''\<rparr>
      else if r = 1 then \<lparr>el_id = ascii ''sold_to_wrap'', el_value = Undefined,
                          style_display = ascii ''block''\<rparr>
      else \<lparr>el_id = ascii ''notes'', el_value = Str (ascii ''x''), style_display = ascii ''''\<rparr>)"

definition form_page :: "unit page" where
  "form_page = \<lparr>elems = form_elems, tree = [2, 0, 1], listeners = []\<rparr>"

definition bare_page :: "unit page" where
  "bare_page = \<lparr>elems = form_elems, tree = [2, 0], listeners = []\<rparr>"

text \<open>
  A body with all six fields, the same body with two more properties, and a body with
  none but the vendor.
\<close>

definition laptop :: js where
  "laptop = Obj [(ascii ''name'', Str (ascii ''Laptop'')),
                 (ascii ''vendor'', Str (ascii ''Dell'')),
                 (ascii ''warranty_expiry'', Str (ascii ''2027-01-31'')),
                 (ascii ''status'', Str (ascii ''in use'')),
                 (ascii ''barcode'', Str (ascii ''A-100'')),
                 (ascii ''history'', Str (ascii ''new''))]"

definition laptop_extra :: js where
  "laptop_extra = Obj [(ascii ''id'', Num 7),
                       (ascii ''name'', Str (ascii ''Laptop'')),
                       (ascii ''vendor'', Str (ascii ''Dell'')),
                       (ascii ''warranty_expiry'', Str (ascii ''2027-01-31'')),
                       (ascii ''status'', Str (ascii ''in use'')),
                       (ascii ''barcode'', Str (ascii ''A-100'')),
                       (ascii ''history'', Str (ascii ''new'')),
                       (ascii ''owner'', Str (ascii ''root''))]"

definition vendor_only :: js where
  "vendor_only = Obj [(ascii ''vendor'', Str (ascii ''Dell''))]"


text \<open>
  A server that accepts every login and every row, one that cannot be reached, and one
  whose table refuses a row without a name.
\<close>

definition open_server :: sqlserver where
  "open_server = \<lparr>accepts_login = (\<lambda>c. None), check_row = (\<lambda>rows r. None),
                   assets = [], received = []\<rparr>"

definition down_server :: sqlserver where
  "down_server = \<lparr>accepts_login = (\<lambda>c. Some (ConnectionError (ascii ''ESOCKET''))),
                   check_row = (\<lambda>rows r. None), assets = [], received = []\<rparr>"

definition strict_server :: sqlserver where
  "strict_server =
     \<lparr>accepts_login = (\<lambda>c. None),
      check_row = (\<lambda>rows r. if name r = Undefined \<or> name r = Null
                              then Some (RequestError (ascii ''EREQUEST'')) else None),
      assets = [], received = []\<rparr>"

section \<open>Properties of the form script\<close>

subsection \<open>The toggle\<close>

lemma strict_eq_str_iff: "strict_eq_str v t \<longleftrightarrow> v = Str t"
  by (cases v) auto

lemma toggleSold_present:
  "toggleSold (Some p) (Some w) pg =
     Inr (pg\<lparr>elems := (elems pg)(w := (elems pg w)
            \<lparr>style_display :=
               (if el_value (elems pg p) = Str sold then ascii '''' else ascii ''none'')\<rparr>)\<rparr>)"
  by (simp add: toggleSold_def strict_eq_str_iff)

lemma toggleSold_absent:
  "placement = None \<or> soldWrap = None \<Longrightarrow> toggleSold placement soldWrap pg = Inr pg"
  by (simp add: toggleSold_def)

lemma none_not_empty: "ascii ''none'' \<noteq> ascii ''''"
  by (simp add: ascii_def)

text \<open>
  Claim C6. With the select \<open>p\<close> and the wrapper \<open>w\<close> both present, an invocation of
  the toggle returns normally and leaves the wrapper's display empty (visible) exactly
  when the select's value is the sold literal; for every other value the display is
  \<open>none\<close>.
\<close>

theorem toggleSold_visible_iff_sold:
  "\<exists>pg'. toggleSold (Some p) (Some w) pg = Inr pg' \<and>
         (style_display (elems pg' w) = ascii '''' \<longleftrightarrow> el_value (elems pg p) = Str sold) \<and>
         (el_value (elems pg p) \<noteq> Str sold \<longrightarrow> style_display (elems pg' w) = ascii ''none'')"
  using none_not_empty by (simp add: toggleSold_present)

theorem toggleSold_visible_iff_sold_witness:
  "(\<exists>pg'. toggleSold (Some 0) (Some 1) form_page = Inr pg' \<and>
          style_display (elems pg' 1) = ascii '''') \<and>
   (\<exists>pg'. toggleSold (Some 2) (Some 1) form_page = Inr pg' \<and>
          style_display (elems pg' 1) = ascii ''none'')"
proof -
  have a: "el_value (elems form_page 0) = Str sold"
    by (simp add: form_page_def form_elems_def)
  have b: "el_value (elems form_page 2) \<noteq> Str sold"
    by (simp add: form_page_def form_elems_def sold_def ascii_def)
  show ?thesis
    using a b toggleSold_visible_iff_sold [of 0 1 form_page]
      toggleSold_visible_iff_sold [of 2 1 form_page]
    by auto
qed

subsection \<open>Absent elements\<close>

lemma script_absent:
  assumes "getElementById pg (ascii ''placement'') = None \<or>
           getElementById pg (ascii ''sold_to_wrap'') = None"
  shows "\<exists>pg'. script pg = Inr pg' \<and> elems pg' = elems pg \<and> tree pg' = tree pg"
proof (cases "getElementById pg (ascii ''placement'')")
  case None
  then show ?thesis by (simp add: script_def)
next
  case (Some p)
  with assms have w: "getElementById pg (ascii ''sold_to_wrap'') = None" by simp
  show ?thesis
    by (simp add: script_def Some w toggleSold_def Let_def)
qed

text \<open>
  Claim C8. When the select or the wrapper is absent (\<open>null\<close>), an invocation of the
  toggle returns normally with the page as it was. At the level of the script: on a
  document that lacks one of the two elements the script runs without an exception and
  leaves every element and the tree as they were.
\<close>

theorem toggleSold_absent_noop:
  "(placement = None \<or> soldWrap = None \<longrightarrow> toggleSold placement soldWrap pg = Inr pg) \<and>
   (getElementById pg (ascii ''placement'') = None \<or>
    getElementById pg (ascii ''sold_to_wrap'') = None \<longrightarrow>
      (\<exists>pg'. script pg = Inr pg' \<and> elems pg' = elems pg \<and> tree pg' = tree pg))"
  using toggleSold_absent [of placement soldWrap pg] script_absent [of pg] by blast

theorem toggleSold_absent_noop_witness:
  "getElementById bare_page (ascii ''sold_to_wrap'') = None \<and>
   toggleSold (Some 0) None bare_page = Inr bare_page \<and>
   (\<exists>pg'. script bare_page = Inr pg' \<and> elems pg' = elems bare_page \<and>
          tree pg' = tree bare_page)"
proof -
  have a: "getElementById bare_page (ascii ''sold_to_wrap'') = None"
    by (simp add: getElementById_def bare_page_def form_elems_def ascii_def)
  show ?thesis
    using a toggleSold_absent_noop [of "Some 0" None bare_page] by simp
qed

subsection \<open>What the toggle leaves alone\<close>

lemma ids_differ: "ascii ''placement'' \<noteq> ascii ''sold_to_wrap''"
  by (simp add: ascii_def)

lemma getElementById_id: "getElementById pg i = Some r \<Longrightarrow> el_id (elems pg r) = i"
  by (auto simp: getElementById_def find_Some_iff)

lemma lookups_differ:
  "getElementById pg (ascii ''placement'') = Some p \<Longrightarrow>
   getElementById pg (ascii ''sold_to_wrap'') = Some w \<Longrightarrow> p \<noteq> w"
  using ids_differ by (auto dest!: getElementById_id)

text \<open>
  Claim C10. An invocation of the toggle returns normally, and the page it returns
  differs from the one it was given at most in the \<open>display\<close> entry of the wrapper's
  inline style: tree and listeners are the same, every element other than the wrapper is
  the same, and every element is the old one up to its \<open>display\<close>. The select found
  by \<open>getElementById\<close> is never the wrapper, so it is unchanged.
\<close>

theorem toggleSold_frame:
  "\<exists>pg'. toggleSold placement soldWrap pg = Inr pg' \<and>
         tree pg' = tree pg \<and> listeners pg' = listeners pg \<and>
         (\<forall>r. soldWrap \<noteq> Some r \<longrightarrow> elems pg' r = elems pg r) \<and>
         (\<forall>r. elems pg' r = (elems pg r)\<lparr>style_display := style_display (elems pg' r)\<rparr>) \<and>
         (placement = getElementById pg (ascii ''placement'') \<and>
          soldWrap = getElementById pg (ascii ''sold_to_wrap'') \<longrightarrow>
            (\<forall>p. placement = Some p \<longrightarrow> elems pg' p = elems pg p))"
proof (cases "placement = None \<or> soldWrap = None")
  case True
  then have "toggleSold placement soldWrap pg = Inr pg"
    by (rule toggleSold_absent)
  then show ?thesis by simp
next
  case False
  then obtain p w where pw: "placement = Some p" "soldWrap = Some w" by auto
  define d where "d = (if el_value (elems pg p) = Str sold then ascii '''' else ascii ''none'')"
  define pg' where "pg' = pg\<lparr>elems := (elems pg)(w := (elems pg w)\<lparr>style_display := d\<rparr>)\<rparr>"
  have t: "toggleSold placement soldWrap pg = Inr pg'"
    by (simp add: pw toggleSold_present pg'_def d_def)
  have a: "tree pg' = tree pg" "listeners pg' = listeners pg"
    by (simp_all add: pg'_def)
  have b: "\<forall>r. soldWrap \<noteq> Some r \<longrightarrow> elems pg' r = elems pg r"
    by (simp add: pg'_def pw)
  have c: "\<forall>r. elems pg' r = (elems pg r)\<lparr>style_display := style_display (elems pg' r)\<rparr>"
    by (simp add: pg'_def)
  have e: "placement = getElementById pg (ascii ''placement'') \<and>
           soldWrap = getElementById pg (ascii ''sold_to_wrap'') \<longrightarrow>
             (\<forall>q. placement = Some q \<longrightarrow> elems pg' q = elems pg q)"
  proof (intro impI allI, elim conjE)
    fix q
    assume "placement = getElementById pg (ascii ''placement'')"
      and "soldWrap = getElementById pg (ascii ''sold_to_wrap'')"
      and "placement = Some q"
    then have "q \<noteq> w"
      using lookups_differ [of pg q w] pw by simp
    then show "elems pg' q = elems pg q"
      by (simp add: pg'_def)
  qed
  show ?thesis
    using t a b c e by blast
qed

theorem toggleSold_frame_witness:
  "\<exists>pg'. toggleSold (Some 0) (Some 1) form_page = Inr pg' \<and>
         tree pg' = [2, 0, 1] \<and> listeners pg' = [] \<and>
         elems pg' 0 = form_elems 0 \<and> elems pg' 2 = form_elems 2 \<and>
         elems pg' 1 = (form_elems 1)\<lparr>style_display := style_display (elems pg' 1)\<rparr>"
  using toggleSold_frame [of "Some 0" "Some 1" form_page]
  by (auto simp: form_page_def)

subsection \<open>Load and change events\<close>

lemma script_present:
  assumes "getElementById pg (ascii ''placement'') = Some p"
    and "getElementById pg (ascii ''sold_to_wrap'') = Some w"
    and "listeners pg = []"
  shows "\<exists>pg'. script pg = Inr pg' \<and> toggle_inv p w pg'"
  using assms lookups_differ [OF assms(1,2)]
  by (simp add: script_def toggleSold_present toggle_inv_def)

lemma change_event_inv:
  assumes "toggle_inv p w pg"
  shows "toggle_inv p w (change_event r v pg)"
proof (cases "r = p")
  case True
  with assms show ?thesis
    by (simp add: toggle_inv_def change_event_def dispatch_def toggleSold_present)
next
  case False
  with assms show ?thesis
    by (auto simp: toggle_inv_def change_event_def dispatch_def)
qed

lemma change_events_inv: "toggle_inv p w pg \<Longrightarrow> toggle_inv p w (change_events cs pg)"
proof (induction cs arbitrary: pg)
  case Nil
  then show ?case by simp
next
  case (Cons c cs)
  obtain r v where c: "c = (r, v)" by (cases c)
  have "toggle_inv p w (change_event r v pg)"
    using Cons.prems by (rule change_event_inv)
  then show ?case
    unfolding c by (simp add: Cons.IH)
qed

text \<open>
  Claim C7. On a document in which the select \<open>p\<close> and the wrapper \<open>w\<close> are found,
  loading the page runs the script without an exception, which registers the toggle for
  the change events of the select and runs it once; after the load and after any
  sequence of change events (on any elements, with any new values) the wrapper's display
  is empty when the select's value is the sold literal and \<open>none\<close> otherwise.
\<close>

theorem display_follows_selector:
  assumes "getElementById \<lparr>elems = es, tree = t, listeners = []\<rparr> (ascii ''placement'') = Some p"
    and "getElementById \<lparr>elems = es, tree = t, listeners = []\<rparr> (ascii ''sold_to_wrap'') = Some w"
  shows "\<exists>pg0. page_load es t = Inr pg0 \<and>
           listeners pg0 = [(p, ascii ''change'', ToggleSold (Some p) (Some w))] \<and>
           (\<forall>cs. style_display (elems (change_events cs pg0) w) =
                   (if el_value (elems (change_events cs pg0) p) = Str sold
                    then ascii '''' else ascii ''none''))"
proof -
  obtain pg0 where l: "page_load es t = Inr pg0" and i: "toggle_inv p w pg0"
    using script_present [OF assms] by (auto simp: page_load_def)
  have "toggle_inv p w (change_events cs pg0)" for cs
    using i by (rule change_events_inv)
  then have "\<forall>cs. style_display (elems (change_events cs pg0) w) =
                   (if el_value (elems (change_events cs pg0) p) = Str sold
                    then ascii '''' else ascii ''none'')"
    unfolding toggle_inv_def by blast
  moreover have "listeners pg0 = [(p, ascii ''change'', ToggleSold (Some p) (Some w))]"
    using i unfolding toggle_inv_def by blast
  ultimately show ?thesis
    using l by blast
qed

theorem display_follows_selector_witness:
  "\<exists>pg0. page_load form_elems [2, 0, 1] = Inr pg0 \<and>
         listeners pg0 = [(0, ascii ''change'', ToggleSold (Some 0) (Some 1))] \<and>
         (\<forall>cs. style_display (elems (change_events cs pg0) 1) =
                 (if el_value (elems (change_events cs pg0) 0) = Str sold
                  then ascii '''' else ascii ''none''))"
proof -
  have p: "getElementById \<lparr>elems = form_elems, tree = [2, 0, 1], listeners = []\<rparr>
             (ascii ''placement'') = Some 0"
    by (simp add: getElementById_def form_elems_def ascii_def)
  have w: "getElementById \<lparr>elems = form_elems, tree = [2, 0, 1], listeners = []\<rparr>
             (ascii ''sold_to_wrap'') = Some 1"
    by (simp add: getElementById_def form_elems_def ascii_def)
  show ?thesis
    using display_follows_selector [OF p w] .
qed

section \<open>Properties of the asset endpoint\<close>

subsection \<open>The paths through the handler\<close>

lemma asset_eta:
  "\<lparr>name = name a, vendor = vendor a, warranty_expiry = warranty_expiry a,
    status = status a, barcode = barcode a, history = history a\<rparr> = (a::asset)"
  by (cases a) simp

lemma execute_insert:
  "execute (assets_insert a) srv =
     (case check_row srv (assets srv) a of
        Some e \<Rightarrow> Inl e
      | None \<Rightarrow> Inr (srv\<lparr>assets := assets srv @ [a]\<rparr>))"
  by (simp add: execute_def assets_insert_def asset_eta)

lemma sql_query_insert:
  "sql_query (assets_insert a) srv =
     (case check_row srv (assets srv) a of
        Some e \<Rightarrow> (Inl e, srv\<lparr>received := received srv @ [template (assets_insert a)]\<rparr>)
      | None \<Rightarrow> (Inr (), srv\<lparr>received := received srv @ [template (assets_insert a)],
                            assets := assets srv @ [a]\<rparr>))"
  by (simp add: sql_query_def execute_insert Let_def split: option.splits)

lemma sql_connect_ok: "sql_connect c srv = Inr () \<longleftrightarrow> accepts_login srv c = None"
  by (simp add: sql_connect_def split: option.splits)

lemma post_cases:
  "destructure body = Inr a \<Longrightarrow>
   post_api_assets body w =
     (case accepts_login (db w) config of
        Some e \<Rightarrow> catch_block e w
      | None \<Rightarrow>
          (case check_row (db w) (assets (db w)) a of
             Some e \<Rightarrow>
               catch_block e
                 (w\<lparr>db := (db w)\<lparr>received := received (db w) @ [template (assets_insert a)]\<rparr>\<rparr>)
           | None \<Rightarrow>
               (Sent ok_response,
                w\<lparr>db := (db w)\<lparr>received := received (db w) @ [template (assets_insert a)],
                               assets := assets (db w) @ [a]\<rparr>\<rparr>)))"
  by (simp add: post_api_assets_def sql_connect_def sql_query_insert split: option.splits)

lemma destructure_fields:
  "body \<noteq> Undefined \<Longrightarrow> body \<noteq> Null \<Longrightarrow> destructure body = Inr (fields_of body)"
  by (cases body) simp_all

lemma post_uncaught:
  "body = Undefined \<or> body = Null \<Longrightarrow> post_api_assets body w = (Uncaught TypeError, w)"
  by (auto simp: post_api_assets_def)

lemma responses_differ: "ok_response \<noteq> error_response"
  by (simp add: error_response_def ok_response_def)

subsection \<open>Success\<close>

text \<open>
  Claim C1. Let the body be an object that supplies the six fields \<open>n\<close>, \<open>v\<close>, \<open>x\<close>,
  \<open>s\<close>, \<open>b\<close>, \<open>h\<close>, and let the payload be valid for the database: the connection is
  accepted and the table admits the row of these six values. Then the handler responds
  with status 200 and the fixed confirmation message, and the table afterwards is the
  table before with exactly that one row appended.
\<close>

theorem post_valid_asset:
  assumes "map_of kvs (ascii ''name'') = Some n"
    and "map_of kvs (ascii ''vendor'') = Some v"
    and "map_of kvs (ascii ''warranty_expiry'') = Some x"
    and "map_of kvs (ascii ''status'') = Some s"
    and "map_of kvs (ascii ''barcode'') = Some b"
    and "map_of kvs (ascii ''history'') = Some h"
    and "sql_connect config (db w) = Inr ()"
    and "check_row (db w) (assets (db w))
           \<lparr>name = n, vendor = v, warranty_expiry = x, status = s, barcode = b, history = h\<rparr> = None"
  shows "fst (post_api_assets (Obj kvs) w) =
           Sent \<lparr>res_status = 200, res_body = Obj [(ascii ''message'', Str saved_message)]\<rparr> \<and>
         assets (db (snd (post_api_assets (Obj kvs) w))) =
           assets (db w) @
             [\<lparr>name = n, vendor = v, warranty_expiry = x, status = s, barcode = b, history = h\<rparr>]"
proof -
  let ?a = "\<lparr>name = n, vendor = v, warranty_expiry = x, status = s, barcode = b, history = h\<rparr>"
  have d: "destructure (Obj kvs) = Inr ?a"
    using assms(1-6) by (simp add: fields_of_def)
  have l: "accepts_login (db w) config = None"
    using assms(7) by (simp add: sql_connect_ok)
  show ?thesis
    using assms(8) l by (simp add: post_cases [OF d] ok_response_def)
qed

theorem post_valid_asset_witness:
  "sql_connect config open_server = Inr () \<and>
   fst (post_api_assets laptop \<lparr>db = open_server, console = []\<rparr>) =
     Sent \<lparr>res_status = 200, res_body = Obj [(ascii ''message'', Str saved_message)]\<rparr> \<and>
   assets (db (snd (post_api_assets laptop \<lparr>db = open_server, console = []\<rparr>))) =
     [\<lparr>name = Str (ascii ''Laptop''), vendor = Str (ascii ''Dell''),
       warranty_expiry = Str (ascii ''2027-01-31''), status = Str (ascii ''in use''),
       barcode = Str (ascii ''A-100''), history = Str (ascii ''new'')\<rparr>]"
  using post_valid_asset [of "[(ascii ''name'', Str (ascii ''Laptop'')),
                 (ascii ''vendor'', Str (ascii ''Dell'')),
                 (ascii ''warranty_expiry'', Str (ascii ''2027-01-31'')),
                 (ascii ''status'', Str (ascii ''in use'')),
                 (ascii ''barcode'', Str (ascii ''A-100'')),
                 (ascii ''history'', Str (ascii ''new''))]"
          "Str (ascii ''Laptop'')" "Str (ascii ''Dell'')" "Str (ascii ''2027-01-31'')"
          "Str (ascii ''in use'')" "Str (ascii ''A-100'')" "Str (ascii ''new'')"
          "\<lparr>db = open_server, console = []\<rparr>"]
  by (simp add: laptop_def open_server_def sql_connect_def ascii_def)

text \<open>
  Claim C2. Let the body be any object, whichever of the six fields it lacks, and let
  the database accept the connection and admit the row. Then the handler responds with
  status 200 and appends one row, whose column is the body's value where the field is
  present and \<open>undefined\<close> where it is absent: the handler itself checks no field and
  refuses nothing.
\<close>

theorem post_missing_fields:
  "(let col = (\<lambda>k. case map_of kvs k of None \<Rightarrow> Undefined | Some v \<Rightarrow> v);
        row = \<lparr>name = col (ascii ''name''), vendor = col (ascii ''vendor''),
               warranty_expiry = col (ascii ''warranty_expiry''),
               status = col (ascii ''status''), barcode = col (ascii ''barcode''),
               history = col (ascii ''history'')\<rparr>
    in sql_connect config (db w) = Inr () \<longrightarrow>
       check_row (db w) (assets (db w)) row = None \<longrightarrow>
       fst (post_api_assets (Obj kvs) w) = Sent ok_response \<and>
       res_status ok_response = 200 \<and>
       assets (db (snd (post_api_assets (Obj kvs) w))) = assets (db w) @ [row])"
proof -
  have d: "destructure (Obj kvs) = Inr (fields_of (Obj kvs))"
    by simp
  show ?thesis
    by (auto simp: Let_def post_cases [OF d] fields_of_def sql_connect_ok ok_response_def)
qed

theorem post_missing_fields_witness:
  "fst (post_api_assets vendor_only \<lparr>db = open_server, console = []\<rparr>) = Sent ok_response \<and>
   assets (db (snd (post_api_assets vendor_only \<lparr>db = open_server, console = []\<rparr>))) =
     [\<lparr>name = Undefined, vendor = Str (ascii ''Dell''), warranty_expiry = Undefined,
       status = Undefined, barcode = Undefined, history = Undefined\<rparr>]"
  using post_missing_fields [of "[(ascii ''vendor'', Str (ascii ''Dell''))]"
          "\<lparr>db = open_server, console = []\<rparr>"]
  by (simp add: vendor_only_def open_server_def sql_connect_def ascii_def Let_def)

subsection \<open>Failure\<close>

text \<open>
  Claim C3, as amended. For every request whose body the JSON middleware has set (any
  body other than \<open>undefined\<close> and \<open>null\<close>) the handler sends one of two responses: status 200
  with the confirmation message, or status 500 with the fixed error message. Whatever
  error the connection attempt is rejected with, and whatever error the insert is
  rejected with, the handler appends one log line holding that error and sends the same
  500 response; after a rejected connection attempt the result does not depend on the
  body at all. Each 500 response comes with exactly one new log line.
\<close>

theorem post_two_outcomes:
  assumes "body \<noteq> Undefined" and "body \<noteq> Null"
  shows "(fst (post_api_assets body w) = Sent ok_response \<or>
          fst (post_api_assets body w) = Sent error_response) \<and>
         res_status error_response = 500 \<and>
         res_body error_response = Obj [(ascii ''error'', Str failed_message)] \<and>
         (\<forall>e. sql_connect config (db w) = Inl e \<longrightarrow>
              post_api_assets body w =
                (Sent error_response, w\<lparr>console := console w @ [(log_label, e)]\<rparr>)) \<and>
         (\<forall>e srv. sql_connect config (db w) = Inr () \<and>
                  sql_query (assets_insert (fields_of body)) (db w) = (Inl e, srv) \<longrightarrow>
              post_api_assets body w =
                (Sent error_response,
                 w\<lparr>db := srv, console := console w @ [(log_label, e)]\<rparr>)) \<and>
         (fst (post_api_assets body w) = Sent error_response \<longrightarrow>
            (\<exists>e. console (snd (post_api_assets body w)) = console w @ [(log_label, e)]))"
proof -
  have d: "destructure body = Inr (fields_of body)"
    using assms by (rule destructure_fields)
  have r: "res_status error_response = 500 \<and>
           res_body error_response = Obj [(ascii ''error'', Str failed_message)]"
    by (simp add: error_response_def)
  show ?thesis
    using responses_differ r
    by (simp add: post_api_assets_def d catch_block_def split: sum.splits prod.splits)
qed

theorem post_two_outcomes_witness:
  "sql_connect config down_server = Inl (ConnectionError (ascii ''ESOCKET'')) \<and>
   post_api_assets laptop \<lparr>db = down_server, console = []\<rparr> =
     (Sent error_response,
      \<lparr>db = down_server, console = [(log_label, ConnectionError (ascii ''ESOCKET''))]\<rparr>) \<and>
   post_api_assets vendor_only \<lparr>db = down_server, console = []\<rparr> =
     (Sent error_response,
      \<lparr>db = down_server, console = [(log_label, ConnectionError (ascii ''ESOCKET''))]\<rparr>)"
proof -
  have c: "sql_connect config down_server = Inl (ConnectionError (ascii ''ESOCKET''))"
    by (simp add: sql_connect_def down_server_def)
  have a: "laptop \<noteq> Undefined" "laptop \<noteq> Null"
    by (simp_all add: laptop_def)
  have b: "vendor_only \<noteq> Undefined" "vendor_only \<noteq> Null"
    by (simp_all add: vendor_only_def)
  show ?thesis
    using c post_two_outcomes [OF a, of "\<lparr>db = down_server, console = []\<rparr>"]
      post_two_outcomes [OF b, of "\<lparr>db = down_server, console = []\<rparr>"]
    by simp
qed

text \<open>
  The same claim read for every request fails on a request whose body was never set:
  the destructuring throws before the \<open>try\<close>, so the handler sends neither response
  and logs nothing.
\<close>

theorem post_undefined_body_uncaught:
  "post_api_assets Undefined \<lparr>db = down_server, console = []\<rparr> =
     (Uncaught TypeError, \<lparr>db = down_server, console = []\<rparr>) \<and>
   fst (post_api_assets Undefined \<lparr>db = down_server, console = []\<rparr>) \<noteq> Sent ok_response \<and>
   fst (post_api_assets Undefined \<lparr>db = down_server, console = []\<rparr>) \<noteq> Sent error_response"
  by (simp add: post_uncaught)

text \<open>
  Claim C4. A call of the handler ends in one of two states and in no third: either it
  has sent the 200 response, the table is the table before with exactly one row (the six
  fields read from the body) appended, and nothing was logged; or it has not sent the
  200 response, the table is exactly the table before, and the log is as before or has
  one more line.
\<close>

theorem post_no_partial_success:
  "(fst (post_api_assets body w) = Sent ok_response \<and>
      assets (db (snd (post_api_assets body w))) = assets (db w) @ [fields_of body] \<and>
      console (snd (post_api_assets body w)) = console w) \<or>
   (fst (post_api_assets body w) \<noteq> Sent ok_response \<and>
      assets (db (snd (post_api_assets body w))) = assets (db w) \<and>
      (console (snd (post_api_assets body w)) = console w \<or>
       (\<exists>e. console (snd (post_api_assets body w)) = console w @ [(log_label, e)])))"
proof (cases "body = Undefined \<or> body = Null")
  case True
  then show ?thesis by (simp add: post_uncaught)
next
  case False
  then have d: "destructure body = Inr (fields_of body)"
    by (simp add: destructure_fields)
  show ?thesis
    using responses_differ [symmetric]
    by (simp add: post_cases [OF d] catch_block_def split: option.splits)
qed

theorem post_no_partial_success_witness:
  "fst (post_api_assets vendor_only \<lparr>db = strict_server, console = []\<rparr>) = Sent error_response \<and>
   assets (db (snd (post_api_assets vendor_only \<lparr>db = strict_server, console = []\<rparr>))) = [] \<and>
   console (snd (post_api_assets vendor_only \<lparr>db = strict_server, console = []\<rparr>)) =
     [(log_label, RequestError (ascii ''EREQUEST''))] \<and>
   fst (post_api_assets laptop \<lparr>db = strict_server, console = []\<rparr>) = Sent ok_response \<and>
   assets (db (snd (post_api_assets laptop \<lparr>db = strict_server, console = []\<rparr>))) =
     [fields_of laptop]"
proof -
  have d: "destructure vendor_only = Inr (fields_of vendor_only)"
    by (simp add: vendor_only_def)
  have e: "destructure laptop = Inr (fields_of laptop)"
    by (simp add: laptop_def)
  have n: "name (fields_of vendor_only) = Undefined"
    by (simp add: fields_of_def vendor_only_def ascii_def)
  have m: "name (fields_of laptop) = Str (ascii ''Laptop'')"
    by (simp add: fields_of_def laptop_def ascii_def)
  have "fst (post_api_assets vendor_only \<lparr>db = strict_server, console = []\<rparr>) = Sent error_response"
    by (simp add: post_cases [OF d] strict_server_def n catch_block_def)
  moreover have "console (snd (post_api_assets vendor_only \<lparr>db = strict_server, console = []\<rparr>)) =
     [(log_label, RequestError (ascii ''EREQUEST''))]"
    by (simp add: post_cases [OF d] strict_server_def n catch_block_def)
  moreover have "fst (post_api_assets laptop \<lparr>db = strict_server, console = []\<rparr>) = Sent ok_response"
    by (simp add: post_cases [OF e] strict_server_def m)
  moreover have "assets (db \<lparr>db = strict_server, console = []\<rparr>) = []"
    by (simp add: strict_server_def)
  ultimately show ?thesis
    using responses_differ
      post_no_partial_success [of vendor_only "\<lparr>db = strict_server, console = []\<rparr>"]
      post_no_partial_success [of laptop "\<lparr>db = strict_server, console = []\<rparr>"]
    by auto
qed

subsection \<open>What reaches the database\<close>













text \<open>
  Claim C9. Two bodies that the middleware has set and that agree on the six properties
  \<open>name\<close>, \<open>vendor\<close>, \<open>warranty_expiry\<close>, \<open>status\<close>, \<open>barcode\<close>, \<open>history\<close> give,
  from the same state, the same response and the same state afterwards (table,
  statements received, log): no other property of the body is read.
\<close>

theorem post_reads_six_fields:
  assumes "b1 \<noteq> Undefined" and "b1 \<noteq> Null" and "b2 \<noteq> Undefined" and "b2 \<noteq> Null"
    and "\<forall>k \<in> set asset_fields. read_field b1 k = read_field b2 k"
  shows "post_api_assets b1 w = post_api_assets b2 w"
proof -
  have "fields_of b1 = fields_of b2"
    using assms(5) by (simp add: fields_of_def asset_fields_def)
  moreover have "destructure b1 = Inr (fields_of b1)"
    using assms(1,2) by (rule destructure_fields)
  moreover have "destructure b2 = Inr (fields_of b2)"
    using assms(3,4) by (rule destructure_fields)
  ultimately show ?thesis
    by (simp add: post_api_assets_def)
qed

theorem post_reads_six_fields_witness:
  "laptop \<noteq> laptop_extra \<and>
   post_api_assets laptop \<lparr>db = open_server, console = []\<rparr> =
   post_api_assets laptop_extra \<lparr>db = open_server, console = []\<rparr>"
proof -
  have a: "laptop \<noteq> Undefined" "laptop \<noteq> Null"
    by (simp_all add: laptop_def)
  have b: "laptop_extra \<noteq> Undefined" "laptop_extra \<noteq> Null"
    by (simp_all add: laptop_extra_def)
  have c: "\<forall>k \<in> set asset_fields. read_field laptop k = read_field laptop_extra k"
    by (simp add: asset_fields_def laptop_def laptop_extra_def ascii_def)
  have d: "laptop \<noteq> laptop_extra"
    by (simp add: laptop_def laptop_extra_def)
  show ?thesis
    using d post_reads_six_fields [OF a b c] by simp
qed


end
